theory Spec2Isabelle
  imports Complex_Main
begin

section \<open>ShakeToFindCursor: the shake detector, the cursor scaler and the cursor state\<close>

text \<open>
  The development embeds three classes of \<^verbatim>\<open>main.cpp\<close>:
  \<^verbatim>\<open>MouseMoveDetector\<close>, \<^verbatim>\<open>CursorUtils\<close> and \<^verbatim>\<open>CursorState\<close>.

  Conventions of the embedding.
  \<^item> C++ \<^verbatim>\<open>int\<close>, \<^verbatim>\<open>LONG\<close> and \<^verbatim>\<open>long long\<close> values are integers. The sum of squares
    in \<^verbatim>\<open>DetectShakePattern\<close> is an \<^verbatim>\<open>int\<close> expression that leaves the 32-bit range for
    displacements of 46341 pixels and more: it is reduced to 32 bits in two's complement,
    which is what the compiled code computes. The other integer expressions (a difference
    of two pointer coordinates, a sum of ten millisecond counts, a counter that stays
    below 20) are computed on the integers.
  \<^item> A \<^verbatim>\<open>double\<close> is a real number, and every arithmetic operation on doubles returns
    the exact result passed through a rounding function \<open>rnd\<close>, which is a parameter of
    the model (IEEE-754 computes the exact result and rounds it). Comparisons and the
    conversion of a 32-bit integer to \<^verbatim>\<open>double\<close> are exact. In \<^verbatim>\<open>DetectShakePattern\<close> a
    double can also be NaN, the square root of a negative number: there a double is a
    \<open>real option\<close>, \<open>None\<close> being NaN, which every operation hands on and every
    comparison answers with false. Every theorem holds for every \<open>rnd\<close>; the concrete
    evaluations use the identity, since all their intermediate values are small integers
    or halves, which a \<^verbatim>\<open>double\<close> represents exactly.
  \<^item> A reading of \<^verbatim>\<open>high_resolution_clock::now()\<close> is an argument \<open>now\<close> of the
    operation that reads it: a \<^verbatim>\<open>time_point\<close> is a count of nanoseconds (the clock's
    period), and \<^verbatim>\<open>duration_cast<milliseconds>\<close> truncates towards zero.
  \<^item> A handle (\<^verbatim>\<open>HCURSOR\<close>, \<^verbatim>\<open>HBITMAP\<close>) is a natural number, \<open>0\<close> being
    \<^verbatim>\<open>nullptr\<close>. The answers of the Win32 calls are fields of a host record, and the
    calls a \<^verbatim>\<open>CursorState\<close> operation makes are returned as a list, in order.
\<close>

subsection \<open>class CursorConfig\<close>

definition kScaleFactor :: real where
  "kScaleFactor = 3"

definition kHistorySize :: nat where
  "kHistorySize = 10"

definition kMinDirectionChanges :: int where
  "kMinDirectionChanges = 5"

definition kMinMovementSpeed :: real where
  "kMinMovementSpeed = 800"

definition kMaxTimeWindow :: int where
  "kMaxTimeWindow = 500"

definition kEnlargeDurationMs :: int where
  "kEnlargeDurationMs = 500"

subsection \<open>Clock readings\<close>

type_synonym time_point = int

text \<open>\<^verbatim>\<open>duration_cast<std::chrono::milliseconds>(d).count()\<close> for a duration of \<open>d\<close>
  nanoseconds: integer division by \<open>10^6\<close>, truncating towards zero.\<close>

definition duration_cast_ms :: "int \<Rightarrow> int" where
  "duration_cast_ms d = (if 0 \<le> d then d div 1000000 else - ((- d) div 1000000))"

text \<open>A whole number of milliseconds, as a duration in nanoseconds.\<close>

definition ms :: "int \<Rightarrow> int" where
  "ms n = n * 1000000"

subsection \<open>class MouseMoveDetector\<close>

record POINT =
  pt_x :: int
  pt_y :: int

record Movement =
  dx :: int
  dy :: int
  dt :: int

record MouseMoveDetector =
  last_pos :: POINT
  last_time :: time_point
  movement_history :: "Movement list"

text \<open>The constructor: \<^verbatim>\<open>GetCursorPos(&last_pos_)\<close>, \<^verbatim>\<open>last_time_ = now()\<close>, and an
  empty deque.\<close>

definition MouseMoveDetector_new :: "POINT \<Rightarrow> time_point \<Rightarrow> MouseMoveDetector" where
  "MouseMoveDetector_new cursor_pos now =
     \<lparr>last_pos = cursor_pos, last_time = now, movement_history = []\<rparr>"

text \<open>The local variables of \<^verbatim>\<open>DetectShakePattern\<close> that live across loop iterations.\<close>

type_synonym double = "real option"

record shake_vars =
  direction_changes :: int
  total_speed :: double
  total_time :: int
  last_x_dir :: int
  last_y_dir :: int

definition shake_vars_init :: shake_vars where
  "shake_vars_init =
     \<lparr>direction_changes = 0, total_speed = Some 0, total_time = 0, last_x_dir = 0,
      last_y_dir = 0\<rparr>"

text \<open>\<^verbatim>\<open>(d > 0) ? 1 : (d < 0) ? -1 : 0\<close>\<close>

definition curr_dir :: "int \<Rightarrow> int" where
  "curr_dir d = (if d > 0 then 1 else if d < 0 then - 1 else 0)"

text \<open>The value of a 32-bit \<^verbatim>\<open>int\<close> whose bits are those of \<open>v\<close>: \<open>v\<close> itself between
  \<open>-2^31\<close> and \<open>2^31 - 1\<close>, and \<open>v\<close> plus or minus a multiple of \<open>2^32\<close> beyond.\<close>

definition wrap_int32 :: "int \<Rightarrow> int" where
  "wrap_int32 v = (v + 2147483648) mod 4294967296 - 2147483648"

text \<open>\<^verbatim>\<open>std::sqrt(mov.dx * mov.dx + mov.dy * mov.dy)\<close>: the argument is computed on
  \<^verbatim>\<open>int\<close>, where the two products and the sum wrap around (reducing each of them or
  only the sum gives the same 32 bits), and converted to \<^verbatim>\<open>double\<close>; the square root
  of a negative argument is NaN.\<close>

definition distance :: "(real \<Rightarrow> real) \<Rightarrow> Movement \<Rightarrow> double" where
  "distance rnd mov =
     (let sum_of_squares = wrap_int32 (dx mov * dx mov + dy mov * dy mov) in
      if sum_of_squares < 0 then None else Some (rnd (sqrt (real_of_int sum_of_squares))))"

text \<open>\<^verbatim>\<open>(mov.dt > 0) ? (distance / mov.dt) * 1000.0 : 0\<close>\<close>

definition speed :: "(real \<Rightarrow> real) \<Rightarrow> Movement \<Rightarrow> double" where
  "speed rnd mov =
     (if dt mov > 0
      then map_option (\<lambda>d. rnd (rnd (d / rnd (real_of_int (dt mov))) * 1000)) (distance rnd mov)
      else Some 0)"

text \<open>One iteration of the range-for loop of \<^verbatim>\<open>DetectShakePattern\<close>.\<close>

definition shake_step :: "(real \<Rightarrow> real) \<Rightarrow> shake_vars \<Rightarrow> Movement \<Rightarrow> shake_vars" where
  "shake_step rnd v mov =
     (let curr_x_dir = curr_dir (dx mov);
          curr_y_dir = curr_dir (dy mov);
          c1 = (if last_x_dir v \<noteq> 0 \<and> curr_x_dir \<noteq> 0 \<and> last_x_dir v \<noteq> curr_x_dir
                then direction_changes v + 1 else direction_changes v);
          c2 = (if last_y_dir v \<noteq> 0 \<and> curr_y_dir \<noteq> 0 \<and> last_y_dir v \<noteq> curr_y_dir
                then c1 + 1 else c1)
      in \<lparr>direction_changes = c2,
          total_speed =
            (case (total_speed v, speed rnd mov) of
               (Some acc, Some sp) \<Rightarrow> Some (rnd (acc + sp))
             | _ \<Rightarrow> None),
          total_time = total_time v + dt mov,
          last_x_dir = curr_x_dir,
          last_y_dir = curr_y_dir\<rparr>)"

fun shake_loop :: "(real \<Rightarrow> real) \<Rightarrow> shake_vars \<Rightarrow> Movement list \<Rightarrow> shake_vars" where
  "shake_loop rnd v [] = v"
| "shake_loop rnd v (mov # rest) = shake_loop rnd (shake_step rnd v mov) rest"

text \<open>\<^verbatim>\<open>DetectShakePattern\<close> reads only \<^verbatim>\<open>movement_history_\<close>, which is its argument
  here.\<close>

definition DetectShakePattern :: "(real \<Rightarrow> real) \<Rightarrow> Movement list \<Rightarrow> bool" where
  "DetectShakePattern rnd history =
     (if length history < kHistorySize then False
      else
        let v = shake_loop rnd shake_vars_init history in
        if total_time v > kMaxTimeWindow then False
        else
          let avg_speed = map_option (\<lambda>acc. rnd (acc / real (length history))) (total_speed v)
          in direction_changes v \<ge> kMinDirectionChanges
             \<and> (case avg_speed of None \<Rightarrow> False | Some avg \<Rightarrow> avg \<ge> kMinMovementSpeed))"

text \<open>\<^verbatim>\<open>ShouldEnlargeCursor\<close>: the new detector and the returned flag.
  \<^verbatim>\<open>push_back\<close> appends at the end of the list and \<^verbatim>\<open>pop_front\<close> removes its head.\<close>

definition ShouldEnlargeCursor ::
  "(real \<Rightarrow> real) \<Rightarrow> MouseMoveDetector \<Rightarrow> POINT \<Rightarrow> time_point \<Rightarrow> MouseMoveDetector \<times> bool" where
  "ShouldEnlargeCursor rnd s current_pos now =
     (let delta_time = duration_cast_ms (now - last_time s) in
      if delta_time \<le> 0 then (s, False)
      else
        let mov = \<lparr>dx = pt_x current_pos - pt_x (last_pos s),
                   dy = pt_y current_pos - pt_y (last_pos s),
                   dt = delta_time\<rparr>;
            pushed = movement_history s @ [mov];
            history = (if length pushed > kHistorySize then tl pushed else pushed);
            s' = \<lparr>last_pos = current_pos, last_time = now, movement_history = history\<rparr>
        in (s', DetectShakePattern rnd history))"

text \<open>A sequence of calls of \<^verbatim>\<open>ShouldEnlargeCursor\<close>, each with the position it is given
  and the clock reading it makes: the final detector and the flags returned, in order.\<close>

fun observe_all ::
  "(real \<Rightarrow> real) \<Rightarrow> MouseMoveDetector \<Rightarrow> (POINT \<times> time_point) list \<Rightarrow> MouseMoveDetector \<times> bool list" where
  "observe_all rnd s [] = (s, [])"
| "observe_all rnd s ((p, now) # calls) =
     (let (s1, r) = ShouldEnlargeCursor rnd s p now;
          (s2, rs) = observe_all rnd s1 calls
      in (s2, r # rs))"

text \<open>The samples a sequence of calls stores, in the order of the calls: a call whose
  elapsed time is positive contributes the displacement from the last stored position and
  the elapsed whole milliseconds since the last stored time; any other call contributes
  nothing.\<close>

fun accepted_samples :: "MouseMoveDetector \<Rightarrow> (POINT \<times> time_point) list \<Rightarrow> Movement list" where
  "accepted_samples s [] = []"
| "accepted_samples s ((p, now) # calls) =
     (if duration_cast_ms (now - last_time s) \<le> 0 then accepted_samples s calls
      else \<lparr>dx = pt_x p - pt_x (last_pos s),
             dy = pt_y p - pt_y (last_pos s),
             dt = duration_cast_ms (now - last_time s)\<rparr>
           # accepted_samples (s\<lparr>last_pos := p, last_time := now\<rparr>) calls)"

subsection \<open>Quantities of a window, stated without the loop\<close>

text \<open>The number of positions of a list of directions at which two neighbours are both
  non-zero and different.\<close>

fun dir_changes :: "int list \<Rightarrow> int" where
  "dir_changes (a # b # ds) =
     (if a \<noteq> 0 \<and> b \<noteq> 0 \<and> a \<noteq> b then 1 else 0) + dir_changes (b # ds)"
| "dir_changes [a] = 0"
| "dir_changes [] = 0"

definition window_direction_changes :: "Movement list \<Rightarrow> int" where
  "window_direction_changes w =
     dir_changes (map (\<lambda>m. curr_dir (dx m)) w) + dir_changes (map (\<lambda>m. curr_dir (dy m)) w)"

definition window_total_time :: "Movement list \<Rightarrow> int" where
  "window_total_time w = sum_list (map dt w)"

text \<open>The speed of a sample by the formula \<open>sqrt (dx^2 + dy^2) / dt * 1000\<close>, each
  operation rounded; and the speeds of a window added up from \<open>0.0\<close> in window order, each
  sum rounded, then divided by the number of samples. Both are written on the integers,
  with no wrap-around, no NaN and no test of \<open>dt\<close>.\<close>

definition sample_speed :: "(real \<Rightarrow> real) \<Rightarrow> Movement \<Rightarrow> real" where
  "sample_speed rnd m =
     rnd (rnd (rnd (sqrt (real_of_int (dx m * dx m + dy m * dy m))) / rnd (real_of_int (dt m)))
          * 1000)"

definition window_avg_speed :: "(real \<Rightarrow> real) \<Rightarrow> Movement list \<Rightarrow> real" where
  "window_avg_speed rnd w =
     rnd (foldl (\<lambda>t m. rnd (t + sample_speed rnd m)) 0 w / real (length w))"

text \<open>The average speed in the words of the specification, in exact arithmetic: for each
  sample \<open>sqrt (dx^2 + dy^2) / dt * 1000\<close>, averaged over the window.\<close>

definition spec_avg_speed :: "Movement list \<Rightarrow> real" where
  "spec_avg_speed w =
     sum_list (map (\<lambda>m. sqrt (real_of_int (dx m * dx m + dy m * dy m)) / real_of_int (dt m) * 1000) w)
     / real (length w)"

text \<open>Two samples move in opposite directions along an axis, given their displacements
  on that axis.\<close>

definition opposite :: "int \<Rightarrow> int \<Rightarrow> bool" where
  "opposite a b = (curr_dir a \<noteq> 0 \<and> curr_dir b \<noteq> 0 \<and> curr_dir a \<noteq> curr_dir b)"

text \<open>The counting rule in the words of the specification: a change is counted whenever
  two consecutive non-zero directions on an axis differ, and the samples with direction
  zero on that axis are skipped, so they do not reset the remembered direction.\<close>

definition spec_direction_changes :: "Movement list \<Rightarrow> int" where
  "spec_direction_changes w =
     dir_changes (filter (\<lambda>d. d \<noteq> 0) (map (\<lambda>m. curr_dir (dx m)) w))
     + dir_changes (filter (\<lambda>d. d \<noteq> 0) (map (\<lambda>m. curr_dir (dy m)) w))"

subsection \<open>class CursorUtils\<close>

type_synonym HANDLE = nat

record ICONINFO =
  xHotspot :: nat
  yHotspot :: nat
  hbmMask :: HANDLE
  hbmColor :: HANDLE

record BITMAP =
  bmWidth :: int
  bmHeight :: int

text \<open>What \<^verbatim>\<open>ScaleCursor\<close> hands to \<^verbatim>\<open>CreateIconIndirect\<close>: the flag and the hotspot of
  \<^verbatim>\<open>new_icon_info\<close>, and the dimensions with which \<^verbatim>\<open>new_color\<close> and \<^verbatim>\<open>new_mask\<close>
  were created.\<close>

record scaled_icon =
  fIcon :: bool
  new_xHotspot :: nat
  new_yHotspot :: nat
  new_width :: int
  new_height :: int

text \<open>The answers of the GDI calls of \<^verbatim>\<open>ScaleCursor\<close>; \<open>None\<close> and \<open>False\<close> are the
  failing answers (\<^verbatim>\<open>FALSE\<close>, \<open>0\<close> or a null handle).\<close>

record gdi_host =
  GetIconInfo :: "HANDLE \<Rightarrow> ICONINFO option"
  GetObject :: "HANDLE \<Rightarrow> BITMAP option"
  GetDC :: bool
  CreateCompatibleDC_src :: bool
  CreateCompatibleDC_dst :: bool
  CreateDIBSection :: "int \<Rightarrow> int \<Rightarrow> bool"
  CreateBitmap :: "int \<Rightarrow> int \<Rightarrow> bool"
  CreateIconIndirect :: "scaled_icon \<Rightarrow> bool"

text \<open>\<^verbatim>\<open>static_cast<int>\<close> of a \<^verbatim>\<open>double\<close> truncates towards zero.\<close>

definition static_cast_int :: "real \<Rightarrow> int" where
  "static_cast_int v = (if 0 \<le> v then \<lfloor>v\<rfloor> else \<lceil>v\<rceil>)"

text \<open>\<^verbatim>\<open>static_cast<DWORD>\<close> of a \<^verbatim>\<open>double\<close> drops the fraction; the conversion is
  defined for values whose truncation is a \<^verbatim>\<open>DWORD\<close>.\<close>

definition static_cast_DWORD :: "real \<Rightarrow> nat" where
  "static_cast_DWORD v = nat \<lfloor>v\<rfloor>"

text \<open>\<^verbatim>\<open>ScaleCursor\<close>: \<open>None\<close> is the returned \<^verbatim>\<open>nullptr\<close>; otherwise the cursor that
  \<^verbatim>\<open>CreateIconIndirect\<close> built. The \<^verbatim>\<open>do { ... } while (false)\<close> block leaves
  \<^verbatim>\<open>new_cursor\<close> null at each \<^verbatim>\<open>break\<close>. The code does not read what
  \<^verbatim>\<open>SelectObject\<close>, \<^verbatim>\<open>SetStretchBltMode\<close>, \<^verbatim>\<open>SetBrushOrgEx\<close> and \<^verbatim>\<open>StretchBlt\<close>
  return, and the calls that release resources decide nothing: they are left out.\<close>

definition ScaleCursor ::
  "(real \<Rightarrow> real) \<Rightarrow> gdi_host \<Rightarrow> HANDLE \<Rightarrow> real \<Rightarrow> scaled_icon option" where
  "ScaleCursor rnd host src_cursor scale_factor =
     (if src_cursor = 0 \<or> scale_factor \<le> 0 then None
      else
        case GetIconInfo host src_cursor of
          None \<Rightarrow> None
        | Some icon_info \<Rightarrow>
            (case GetObject host
                    (if hbmColor icon_info \<noteq> 0 then hbmColor icon_info else hbmMask icon_info) of
               None \<Rightarrow> None
             | Some bm \<Rightarrow>
                 let width = static_cast_int (rnd (real_of_int (bmWidth bm) * scale_factor));
                     height = static_cast_int (rnd (real_of_int (bmHeight bm) * scale_factor))
                 in
                   if \<not> GetDC host then None
                   else if \<not> CreateCompatibleDC_src host \<or> \<not> CreateCompatibleDC_dst host then None
                   else if \<not> CreateDIBSection host width height then None
                   else if \<not> CreateBitmap host width height then None
                   else
                     let new_icon_info =
                           \<lparr>fIcon = False,
                            new_xHotspot =
                              static_cast_DWORD (rnd (real (xHotspot icon_info) * scale_factor)),
                            new_yHotspot =
                              static_cast_DWORD (rnd (real (yHotspot icon_info) * scale_factor)),
                            new_width = width,
                            new_height = height\<rparr>
                     in if CreateIconIndirect host new_icon_info then Some new_icon_info
                        else None))"

text \<open>\<^verbatim>\<open>round\<close> of the specification: the nearest integer. The concrete value it is
  evaluated at below is \<open>1.75\<close>, which is no tie.\<close>

definition spec_round :: "real \<Rightarrow> int" where
  "spec_round v = \<lfloor>v + 1 / 2\<rfloor>"

subsection \<open>class CursorState\<close>

record CursorState =
  original_cursor :: HANDLE
  large_cursor :: HANDLE
  is_enlarged :: bool
  enlarge_start_time :: time_point

text \<open>The answers of the cursor calls during one operation: \<^verbatim>\<open>CopyCursor\<close> returns a
  handle (\<open>0\<close> when it fails), \<^verbatim>\<open>SetSystemCursor\<close> a \<^verbatim>\<open>BOOL\<close>.\<close>

record cursor_host =
  CopyCursor :: "HANDLE \<Rightarrow> HANDLE"
  SetSystemCursor :: "HANDLE \<Rightarrow> bool"

datatype host_call =
    Call_CopyCursor HANDLE
  | Call_SetSystemCursor HANDLE
  | Call_DestroyCursor HANDLE

definition Enlarge ::
  "cursor_host \<Rightarrow> CursorState \<Rightarrow> time_point \<Rightarrow> CursorState \<times> host_call list" where
  "Enlarge host s now =
     (if \<not> is_enlarged s then
        let cursor_copy = CopyCursor host (large_cursor s) in
        if cursor_copy \<noteq> 0 then
          if SetSystemCursor host cursor_copy then
            (s\<lparr>is_enlarged := True, enlarge_start_time := now\<rparr>,
             [Call_CopyCursor (large_cursor s), Call_SetSystemCursor cursor_copy])
          else
            (s, [Call_CopyCursor (large_cursor s), Call_SetSystemCursor cursor_copy,
                 Call_DestroyCursor cursor_copy])
        else (s, [Call_CopyCursor (large_cursor s)])
      else (s, []))"

definition RestoreOriginalCursor ::
  "cursor_host \<Rightarrow> CursorState \<Rightarrow> CursorState \<times> host_call list" where
  "RestoreOriginalCursor host s =
     (if is_enlarged s then
        let cursor_copy = CopyCursor host (original_cursor s) in
        if cursor_copy \<noteq> 0 then
          if SetSystemCursor host cursor_copy then
            (s\<lparr>is_enlarged := False\<rparr>,
             [Call_CopyCursor (original_cursor s), Call_SetSystemCursor cursor_copy])
          else
            (s, [Call_CopyCursor (original_cursor s), Call_SetSystemCursor cursor_copy,
                 Call_DestroyCursor cursor_copy])
        else (s, [Call_CopyCursor (original_cursor s)])
      else (s, []))"

definition RestoreIfNeeded ::
  "cursor_host \<Rightarrow> CursorState \<Rightarrow> time_point \<Rightarrow> CursorState \<times> host_call list" where
  "RestoreIfNeeded host s now =
     (if is_enlarged s then
        let elapsed = duration_cast_ms (now - enlarge_start_time s) in
        if elapsed > kEnlargeDurationMs then RestoreOriginalCursor host s
        else (s, [])
      else (s, []))"

text \<open>A sequence of timer ticks, each with the answers of the host and the clock
  reading of its \<^verbatim>\<open>RestoreIfNeeded\<close>: the final state and the host calls of each tick.\<close>

fun RestoreIfNeeded_all ::
  "CursorState \<Rightarrow> (cursor_host \<times> time_point) list \<Rightarrow> CursorState \<times> host_call list list" where
  "RestoreIfNeeded_all s [] = (s, [])"
| "RestoreIfNeeded_all s ((host, now) # ticks) =
     (let (s1, calls) = RestoreIfNeeded host s now;
          (s2, rest) = RestoreIfNeeded_all s1 ticks
      in (s2, calls # rest))"

text \<open>The restore cannot succeed with these answers of the host: it has no copy of the
  original cursor to give, or it declines \<^verbatim>\<open>SetSystemCursor\<close> of the copy.\<close>

definition restore_fails :: "CursorState \<Rightarrow> cursor_host \<Rightarrow> bool" where
  "restore_fails s host \<longleftrightarrow>
     CopyCursor host (original_cursor s) = 0
     \<or> \<not> SetSystemCursor host (CopyCursor host (original_cursor s))"

text \<open>\<^verbatim>\<open>elapsed > CursorConfig::kEnlargeDurationMs\<close> at the clock reading \<open>now\<close>.\<close>

definition past_dwell :: "CursorState \<Rightarrow> time_point \<Rightarrow> bool" where
  "past_dwell s now \<longleftrightarrow> kEnlargeDurationMs < duration_cast_ms (now - enlarge_start_time s)"

text \<open>The \<^verbatim>\<open>SetSystemCursor\<close> calls among the calls of an operation: the install
  commands of \<^verbatim>\<open>Enlarge\<close>, the restore commands of \<^verbatim>\<open>RestoreIfNeeded\<close>.\<close>

fun is_set_command :: "host_call \<Rightarrow> bool" where
  "is_set_command (Call_SetSystemCursor h) = True"
| "is_set_command (Call_CopyCursor h) = False"
| "is_set_command (Call_DestroyCursor h) = False"

definition set_commands :: "host_call list \<Rightarrow> host_call list" where
  "set_commands calls = filter is_set_command calls"

subsection \<open>ShakeToFindCursor::ProcessMouseMove\<close>

text \<open>\<^verbatim>\<open>if (move_detector_.ShouldEnlargeCursor(pt)) cursor_state_.Enlarge();\<close> The two
  clock readings are \<open>now\<close> (in the detector) and \<open>now'\<close> (in \<^verbatim>\<open>Enlarge\<close>).\<close>

definition ProcessMouseMove ::
  "(real \<Rightarrow> real) \<Rightarrow> cursor_host \<Rightarrow> MouseMoveDetector \<times> CursorState \<Rightarrow> POINT \<Rightarrow> time_point \<Rightarrow>
   time_point \<Rightarrow> (MouseMoveDetector \<times> CursorState) \<times> host_call list" where
  "ProcessMouseMove rnd host app pt now now' =
     (let (d, shake) = ShouldEnlargeCursor rnd (fst app) pt now in
      if shake then (let (c, calls) = Enlarge host (snd app) now' in ((d, c), calls))
      else ((d, snd app), []))"

subsection \<open>Concrete inputs\<close>

text \<open>A window whose reversals along the x axis are separated by samples that do not
  move along it, except the last one.\<close>

definition zero_gap_window :: "Movement list" where
  "zero_gap_window =
     [\<lparr>dx = 100, dy = 0, dt = 40\<rparr>, \<lparr>dx = 0, dy = 0, dt = 40\<rparr>,
      \<lparr>dx = - 100, dy = 0, dt = 40\<rparr>, \<lparr>dx = 0, dy = 0, dt = 40\<rparr>,
      \<lparr>dx = 100, dy = 0, dt = 40\<rparr>, \<lparr>dx = 0, dy = 0, dt = 40\<rparr>,
      \<lparr>dx = - 100, dy = 0, dt = 40\<rparr>, \<lparr>dx = 0, dy = 0, dt = 40\<rparr>,
      \<lparr>dx = 100, dy = 0, dt = 40\<rparr>, \<lparr>dx = - 100, dy = 0, dt = 40\<rparr>]"

text \<open>A detector constructed at the origin at time \<open>0\<close>, and nine calls that move
  the pointer 50 pixels to and fro along the x axis, one every 40 milliseconds.\<close>

definition origin :: POINT where
  "origin = \<lparr>pt_x = 0, pt_y = 0\<rparr>"

definition shake_calls :: "(POINT \<times> time_point) list" where
  "shake_calls =
     [(\<lparr>pt_x = 50, pt_y = 0\<rparr>, ms 40), (\<lparr>pt_x = 0, pt_y = 0\<rparr>, ms 80),
      (\<lparr>pt_x = 50, pt_y = 0\<rparr>, ms 120), (\<lparr>pt_x = 0, pt_y = 0\<rparr>, ms 160),
      (\<lparr>pt_x = 50, pt_y = 0\<rparr>, ms 200), (\<lparr>pt_x = 0, pt_y = 0\<rparr>, ms 240),
      (\<lparr>pt_x = 50, pt_y = 0\<rparr>, ms 280), (\<lparr>pt_x = 0, pt_y = 0\<rparr>, ms 320),
      (\<lparr>pt_x = 50, pt_y = 0\<rparr>, ms 360)]"

definition shake_state :: MouseMoveDetector where
  "shake_state = fst (observe_all id (MouseMoveDetector_new origin 0) shake_calls)"

text \<open>The detector after a tenth call of that kind: its window is full and holds the
  shake.\<close>

definition full_shake_state :: MouseMoveDetector where
  "full_shake_state = fst (ShouldEnlargeCursor id shake_state origin (ms 400))"






text \<open>Two more calls of the same kind, so that eleven samples are stored.\<close>

definition eleven_calls :: "(POINT \<times> time_point) list" where
  "eleven_calls = shake_calls @ [(origin, ms 400), (\<lparr>pt_x = 50, pt_y = 0\<rparr>, ms 440)]"

text \<open>A cursor state that has been enlarged since the clock read one second, and hosts
  that copy every cursor and accept, or decline, every \<^verbatim>\<open>SetSystemCursor\<close>.\<close>

definition enlarged_state :: CursorState where
  "enlarged_state =
     \<lparr>original_cursor = 1, large_cursor = 2, is_enlarged = True, enlarge_start_time = ms 1000\<rparr>"

definition accepting_host :: cursor_host where
  "accepting_host = \<lparr>CopyCursor = (\<lambda>h. h + 10), SetSystemCursor = (\<lambda>h. True)\<rparr>"

definition declining_host :: cursor_host where
  "declining_host = \<lparr>CopyCursor = (\<lambda>h. h + 10), SetSystemCursor = (\<lambda>h. False)\<rparr>"

text \<open>A host whose cursors are 32 by 32 pixels with the hotspot at \<open>(1, 1)\<close>, and whose
  GDI calls all succeed.\<close>

definition arrow_host :: gdi_host where
  "arrow_host =
     \<lparr>GetIconInfo = (\<lambda>h. Some \<lparr>xHotspot = 1, yHotspot = 1, hbmMask = 2, hbmColor = 3\<rparr>),
      GetObject = (\<lambda>h. Some \<lparr>bmWidth = 32, bmHeight = 32\<rparr>),
      GetDC = True,
      CreateCompatibleDC_src = True,
      CreateCompatibleDC_dst = True,
      CreateDIBSection = (\<lambda>w h. True),
      CreateBitmap = (\<lambda>w h. True),
      CreateIconIndirect = (\<lambda>i. True)\<rparr>"

section \<open>The loop of DetectShakePattern\<close>

text \<open>Each variable of the loop is a function of the window alone.\<close>

lemma shake_loop_total_time:
  "total_time (shake_loop rnd v w) = total_time v + sum_list (map dt w)"
  by (induction w arbitrary: v) (simp_all add: shake_step_def Let_def)

lemma wrap_int32_in_range: "0 \<le> v \<Longrightarrow> v \<le> 2147483647 \<Longrightarrow> wrap_int32 v = v"
  by (simp add: wrap_int32_def)

lemma distance_in_range:
  assumes "dx m * dx m + dy m * dy m \<le> 2147483647"
  shows "distance rnd m = Some (rnd (sqrt (real_of_int (dx m * dx m + dy m * dy m))))"
proof -
  have nonneg: "0 \<le> dx m * dx m + dy m * dy m"
    by simp
  then have "wrap_int32 (dx m * dx m + dy m * dy m) = dx m * dx m + dy m * dy m"
    using assms by (rule wrap_int32_in_range)
  with nonneg show ?thesis
    by (simp add: distance_def Let_def not_less)
qed

lemma speed_in_range:
  assumes "0 < dt m" and "dx m * dx m + dy m * dy m \<le> 2147483647"
  shows "speed rnd m = Some (sample_speed rnd m)"
  using assms by (simp add: speed_def sample_speed_def distance_in_range)

lemma shake_loop_total_speed:
  assumes "\<forall>m \<in> set w. 0 < dt m \<and> dx m * dx m + dy m * dy m \<le> 2147483647"
      and "total_speed v = Some acc"
  shows "total_speed (shake_loop rnd v w)
           = Some (foldl (\<lambda>t m. rnd (t + sample_speed rnd m)) acc w)"
  using assms
proof (induction w arbitrary: v acc)
  case Nil
  then show ?case by simp
next
  case (Cons m w)
  from Cons.prems have "speed rnd m = Some (sample_speed rnd m)"
    by (simp add: speed_in_range)
  with Cons.prems have "total_speed (shake_step rnd v m) = Some (rnd (acc + sample_speed rnd m))"
    by (simp add: shake_step_def Let_def)
  moreover from Cons.prems
  have "\<forall>m \<in> set w. 0 < dt m \<and> dx m * dx m + dy m * dy m \<le> 2147483647"
    by simp
  ultimately show ?case
    using Cons.IH by simp
qed

lemma shake_step_last_dirs:
  "last_x_dir (shake_step rnd v m) = curr_dir (dx m)"
  "last_y_dir (shake_step rnd v m) = curr_dir (dy m)"
  by (simp_all add: shake_step_def Let_def)

lemma shake_step_direction_changes:
  "direction_changes (shake_step rnd v m) =
     direction_changes v
     + (if last_x_dir v \<noteq> 0 \<and> curr_dir (dx m) \<noteq> 0 \<and> last_x_dir v \<noteq> curr_dir (dx m) then 1 else 0)
     + (if last_y_dir v \<noteq> 0 \<and> curr_dir (dy m) \<noteq> 0 \<and> last_y_dir v \<noteq> curr_dir (dy m) then 1 else 0)"
  by (simp add: shake_step_def Let_def)

lemma shake_loop_direction_changes:
  "direction_changes (shake_loop rnd v w) =
     direction_changes v
     + dir_changes (last_x_dir v # map (\<lambda>m. curr_dir (dx m)) w)
     + dir_changes (last_y_dir v # map (\<lambda>m. curr_dir (dy m)) w)"
proof (induction w arbitrary: v)
  case Nil
  show ?case by simp
next
  case (Cons m w)
  show ?case
    by (simp only: shake_loop.simps Cons.IH shake_step_last_dirs shake_step_direction_changes
        list.map dir_changes.simps)
qed

lemma dir_changes_zero: "dir_changes (0 # ds) = dir_changes ds"
  by (cases ds) simp_all

lemma shake_loop_init_direction_changes:
  "direction_changes (shake_loop rnd shake_vars_init w) = window_direction_changes w"
  by (simp add: shake_loop_direction_changes window_direction_changes_def shake_vars_init_def
      dir_changes_zero)

lemma DetectShakePattern_iff:
  assumes "\<forall>m \<in> set w. 0 < dt m \<and> dx m * dx m + dy m * dy m \<le> 2147483647"
  shows "DetectShakePattern rnd w \<longleftrightarrow>
     kHistorySize \<le> length w \<and> window_total_time w \<le> kMaxTimeWindow
     \<and> window_direction_changes w \<ge> kMinDirectionChanges
     \<and> window_avg_speed rnd w \<ge> kMinMovementSpeed"
proof -
  have t: "total_time (shake_loop rnd shake_vars_init w) = window_total_time w"
    by (simp add: shake_loop_total_time window_total_time_def shake_vars_init_def)
  have s: "total_speed (shake_loop rnd shake_vars_init w)
             = Some (foldl (\<lambda>t m. rnd (t + sample_speed rnd m)) 0 w)"
    by (rule shake_loop_total_speed [OF assms]) (simp add: shake_vars_init_def)
  show ?thesis
    unfolding DetectShakePattern_def Let_def t s shake_loop_init_direction_changes
      window_avg_speed_def
    by auto
qed





lemma dir_changes_card:
  "dir_changes ds = int (card {i. Suc i < length ds \<and> ds ! i \<noteq> 0 \<and> ds ! Suc i \<noteq> 0 \<and> ds ! i \<noteq> ds ! Suc i})"
proof (induction ds rule: dir_changes.induct)
  case (1 a b ds)
  let ?P = "\<lambda>xs i. Suc i < length xs \<and> xs ! i \<noteq> 0 \<and> xs ! Suc i \<noteq> 0 \<and> xs ! i \<noteq> xs ! Suc i"
  have split: "{i. ?P (a # b # ds) i} = (if ?P (a # b # ds) 0 then {0} else {}) \<union> Suc ` {i. ?P (b # ds) i}"
  proof (rule set_eqI)
    fix i show "i \<in> {i. ?P (a # b # ds) i} \<longleftrightarrow> i \<in> (if ?P (a # b # ds) 0 then {0} else {}) \<union> Suc ` {i. ?P (b # ds) i}"
      by (cases i) (auto simp: image_iff)
  qed
  have fin: "finite {i. ?P (b # ds) i}"
    by (rule finite_subset [of _ "{..<length (b # ds)}"]) auto
  have card_img: "card (Suc ` {i. ?P (b # ds) i}) = card {i. ?P (b # ds) i}"
    by (rule card_image) simp
  show ?case
  proof (cases "a \<noteq> 0 \<and> b \<noteq> 0 \<and> a \<noteq> b")
    case True
    then have "{i. ?P (a # b # ds) i} = insert 0 (Suc ` {i. ?P (b # ds) i})"
      using split by simp
    moreover have "0 \<notin> Suc ` {i. ?P (b # ds) i}" by simp
    ultimately have "card {i. ?P (a # b # ds) i} = Suc (card {i. ?P (b # ds) i})"
      using fin card_img by simp
    with True "1.IH" show ?thesis by simp
  next
    case False
    then have "{i. ?P (a # b # ds) i} = Suc ` {i. ?P (b # ds) i}"
      using split by auto
    with False "1.IH" card_img show ?thesis by simp
  qed
qed simp_all


section \<open>Calls of ShouldEnlargeCursor\<close>

lemma ShouldEnlargeCursor_rejected:
  "duration_cast_ms (now - last_time s) \<le> 0 \<Longrightarrow> ShouldEnlargeCursor rnd s p now = (s, False)"
  by (simp add: ShouldEnlargeCursor_def)

lemma ShouldEnlargeCursor_accepted:
  assumes "0 < duration_cast_ms (now - last_time s)"
  shows "ShouldEnlargeCursor rnd s p now =
           (let pushed = movement_history s @ [\<lparr>dx = pt_x p - pt_x (last_pos s),
                                                dy = pt_y p - pt_y (last_pos s),
                                                dt = duration_cast_ms (now - last_time s)\<rparr>];
                history = (if length pushed > kHistorySize then tl pushed else pushed)
            in (\<lparr>last_pos = p, last_time = now, movement_history = history\<rparr>,
                DetectShakePattern rnd history))"
  using assms by (simp add: ShouldEnlargeCursor_def Let_def)

lemma accepted_samples_cong:
  "last_pos a = last_pos b \<Longrightarrow> last_time a = last_time b \<Longrightarrow>
   accepted_samples a calls = accepted_samples b calls"
proof (induction calls arbitrary: a b)
  case Nil
  show ?case by simp
next
  case (Cons c calls)
  obtain p now where c: "c = (p, now)" by (cases c)
  have "accepted_samples (a\<lparr>last_pos := p, last_time := now\<rparr>) calls
        = accepted_samples (b\<lparr>last_pos := p, last_time := now\<rparr>) calls"
    by (rule Cons.IH) simp_all
  moreover have "accepted_samples a calls = accepted_samples b calls"
    by (rule Cons.IH) (use Cons.prems in simp_all)
  ultimately show ?case using Cons.prems by (simp add: c)
qed

lemma observe_all_Cons:
  "fst (observe_all rnd s ((p, now) # calls))
     = fst (observe_all rnd (fst (ShouldEnlargeCursor rnd s p now)) calls)"
  "snd (observe_all rnd s ((p, now) # calls))
     = snd (ShouldEnlargeCursor rnd s p now)
       # snd (observe_all rnd (fst (ShouldEnlargeCursor rnd s p now)) calls)"
  by (simp_all add: case_prod_beta)

lemma keep_last_step:
  assumes "length h \<le> n" and "0 < n"
  shows "drop (length ((if length (h @ [m]) > n then tl (h @ [m]) else h @ [m]) @ acc) - n)
              ((if length (h @ [m]) > n then tl (h @ [m]) else h @ [m]) @ acc)
         = drop (length (h @ m # acc) - n) (h @ m # acc)"
proof (cases "length h < n")
  case True
  then show ?thesis by simp
next
  case False
  with assms have len: "length h = n" by simp
  with assms obtain a h' where h: "h = a # h'" by (cases h) auto
  with len have "length h' = n - 1" by simp
  with assms h len show ?thesis by (simp add: Suc_diff_le)
qed

lemma observe_all_history:
  assumes "length (movement_history s) \<le> kHistorySize"
  shows "movement_history (fst (observe_all rnd s calls)) =
           drop (length (movement_history s @ accepted_samples s calls) - kHistorySize)
                (movement_history s @ accepted_samples s calls)"
  using assms
proof (induction calls arbitrary: s)
  case Nil
  then show ?case by simp
next
  case (Cons c calls)
  obtain p now where c: "c = (p, now)" by (cases c)
  show ?case
  proof (cases "duration_cast_ms (now - last_time s) \<le> 0")
    case True
    then show ?thesis
      using Cons.IH [OF Cons.prems]
      by (simp add: c ShouldEnlargeCursor_rejected observe_all_Cons del: observe_all.simps)
  next
    case False
    let ?m = "\<lparr>dx = pt_x p - pt_x (last_pos s), dy = pt_y p - pt_y (last_pos s),
               dt = duration_cast_ms (now - last_time s)\<rparr>"
    let ?h = "(if length (movement_history s @ [?m]) > kHistorySize
               then tl (movement_history s @ [?m]) else movement_history s @ [?m])"
    let ?s1 = "\<lparr>last_pos = p, last_time = now, movement_history = ?h\<rparr>"
    have step: "ShouldEnlargeCursor rnd s p now = (?s1, DetectShakePattern rnd ?h)"
      using False by (simp add: ShouldEnlargeCursor_accepted Let_def)
    have len1: "length (movement_history ?s1) \<le> kHistorySize"
      using Cons.prems by (auto simp: kHistorySize_def)
    have acc: "accepted_samples ?s1 calls
                 = accepted_samples (s\<lparr>last_pos := p, last_time := now\<rparr>) calls"
      by (rule accepted_samples_cong) simp_all
    let ?A = "accepted_samples (s\<lparr>last_pos := p, last_time := now\<rparr>) calls"
    have unfold_acc: "accepted_samples s (c # calls) = ?m # ?A"
      using False by (simp add: c)
    have "movement_history (fst (observe_all rnd s (c # calls)))
            = movement_history (fst (observe_all rnd ?s1 calls))"
      by (simp add: c step observe_all_Cons del: observe_all.simps)
    also have "\<dots> = drop (length (movement_history ?s1 @ accepted_samples ?s1 calls) - kHistorySize)
                         (movement_history ?s1 @ accepted_samples ?s1 calls)"
      by (rule Cons.IH [OF len1])
    also have "\<dots> = drop (length (?h @ ?A) - kHistorySize) (?h @ ?A)"
      by (simp only: acc MouseMoveDetector.simps)
    also have "\<dots> = drop (length (movement_history s @ ?m # ?A) - kHistorySize)
                         (movement_history s @ ?m # ?A)"
      by (rule keep_last_step) (use Cons.prems in \<open>simp_all add: kHistorySize_def\<close>)
    finally show ?thesis
      by (simp only: unfold_acc)
  qed
qed

lemma accepted_samples_dt_pos: "m \<in> set (accepted_samples s calls) \<Longrightarrow> 0 < dt m"
proof (induction calls arbitrary: s)
  case Nil
  then show ?case by simp
next
  case (Cons c calls)
  obtain p now where c: "c = (p, now)" by (cases c)
  from Cons.prems Cons.IH show ?case
    by (auto simp: c split: if_splits)
qed




lemma observe_all_length_history:
  "length (movement_history (fst (observe_all rnd (MouseMoveDetector_new p0 t0) calls)))
     = min kHistorySize (length (accepted_samples (MouseMoveDetector_new p0 t0) calls))"
  by (subst observe_all_history) (auto simp: MouseMoveDetector_new_def)


section \<open>Evaluation of the concrete inputs\<close>

lemma sqrt_2500: "sqrt 2500 = 50"
  by (rule real_sqrt_unique) simp_all



lemma distance_on_x_axis:
  "a * a \<le> 2147483647 \<Longrightarrow> distance id \<lparr>dx = a, dy = 0, dt = t\<rparr> = Some \<bar>real_of_int a\<bar>"
  by (simp add: distance_in_range)

lemma sample_speed_on_x_axis:
  "sample_speed id \<lparr>dx = a, dy = 0, dt = t\<rparr> = \<bar>real_of_int a\<bar> / real_of_int t * 1000"
  by (simp add: sample_speed_def)

lemma shake_state_eval:
  "shake_state =
     \<lparr>last_pos = \<lparr>pt_x = 50, pt_y = 0\<rparr>, last_time = ms 360,
      movement_history =
        [\<lparr>dx = 50, dy = 0, dt = 40\<rparr>, \<lparr>dx = - 50, dy = 0, dt = 40\<rparr>,
         \<lparr>dx = 50, dy = 0, dt = 40\<rparr>, \<lparr>dx = - 50, dy = 0, dt = 40\<rparr>,
         \<lparr>dx = 50, dy = 0, dt = 40\<rparr>, \<lparr>dx = - 50, dy = 0, dt = 40\<rparr>,
         \<lparr>dx = 50, dy = 0, dt = 40\<rparr>, \<lparr>dx = - 50, dy = 0, dt = 40\<rparr>,
         \<lparr>dx = 50, dy = 0, dt = 40\<rparr>]\<rparr>"
  by (simp add: shake_state_def shake_calls_def origin_def MouseMoveDetector_new_def
      ShouldEnlargeCursor_def Let_def duration_cast_ms_def ms_def kHistorySize_def
      DetectShakePattern_def)

lemma shake_step_eval:
  "fst (ShouldEnlargeCursor id shake_state origin (ms 400)) =
     \<lparr>last_pos = origin, last_time = ms 400,
      movement_history =
        [\<lparr>dx = 50, dy = 0, dt = 40\<rparr>, \<lparr>dx = - 50, dy = 0, dt = 40\<rparr>,
         \<lparr>dx = 50, dy = 0, dt = 40\<rparr>, \<lparr>dx = - 50, dy = 0, dt = 40\<rparr>,
         \<lparr>dx = 50, dy = 0, dt = 40\<rparr>, \<lparr>dx = - 50, dy = 0, dt = 40\<rparr>,
         \<lparr>dx = 50, dy = 0, dt = 40\<rparr>, \<lparr>dx = - 50, dy = 0, dt = 40\<rparr>,
         \<lparr>dx = 50, dy = 0, dt = 40\<rparr>, \<lparr>dx = - 50, dy = 0, dt = 40\<rparr>]\<rparr>"
  by (simp add: shake_state_eval origin_def
      ShouldEnlargeCursor_def Let_def duration_cast_ms_def ms_def kHistorySize_def)

lemma eleven_calls_accepted:
  "accepted_samples (MouseMoveDetector_new origin 0) eleven_calls =
     [\<lparr>dx = 50, dy = 0, dt = 40\<rparr>, \<lparr>dx = - 50, dy = 0, dt = 40\<rparr>,
      \<lparr>dx = 50, dy = 0, dt = 40\<rparr>, \<lparr>dx = - 50, dy = 0, dt = 40\<rparr>,
      \<lparr>dx = 50, dy = 0, dt = 40\<rparr>, \<lparr>dx = - 50, dy = 0, dt = 40\<rparr>,
      \<lparr>dx = 50, dy = 0, dt = 40\<rparr>, \<lparr>dx = - 50, dy = 0, dt = 40\<rparr>,
      \<lparr>dx = 50, dy = 0, dt = 40\<rparr>, \<lparr>dx = - 50, dy = 0, dt = 40\<rparr>,
      \<lparr>dx = 50, dy = 0, dt = 40\<rparr>]"
  by (simp add: eleven_calls_def shake_calls_def origin_def MouseMoveDetector_new_def
      duration_cast_ms_def ms_def)

lemma full_shake_state_eval:
  "full_shake_state =
     \<lparr>last_pos = origin, last_time = ms 400,
      movement_history =
        [\<lparr>dx = 50, dy = 0, dt = 40\<rparr>, \<lparr>dx = - 50, dy = 0, dt = 40\<rparr>,
         \<lparr>dx = 50, dy = 0, dt = 40\<rparr>, \<lparr>dx = - 50, dy = 0, dt = 40\<rparr>,
         \<lparr>dx = 50, dy = 0, dt = 40\<rparr>, \<lparr>dx = - 50, dy = 0, dt = 40\<rparr>,
         \<lparr>dx = 50, dy = 0, dt = 40\<rparr>, \<lparr>dx = - 50, dy = 0, dt = 40\<rparr>,
         \<lparr>dx = 50, dy = 0, dt = 40\<rparr>, \<lparr>dx = - 50, dy = 0, dt = 40\<rparr>]\<rparr>"
  unfolding full_shake_state_def by (rule shake_step_eval)

lemma full_shake_window:
  "length (movement_history full_shake_state) = 10"
  "window_total_time (movement_history full_shake_state) = 400"
  "window_direction_changes (movement_history full_shake_state) = 9"
  "spec_direction_changes (movement_history full_shake_state) = 9"
  "window_avg_speed id (movement_history full_shake_state) = 1250"
  "spec_avg_speed (movement_history full_shake_state) = 1250"
  "\<forall>m \<in> set (movement_history full_shake_state).
     0 < dt m \<and> dx m * dx m + dy m * dy m \<le> 2147483647"
  by (simp_all add: full_shake_state_eval window_total_time_def window_direction_changes_def
      spec_direction_changes_def curr_dir_def window_avg_speed_def sample_speed_on_x_axis
      spec_avg_speed_def sqrt_2500)

lemma full_shake_detected: "DetectShakePattern id (movement_history full_shake_state)"
  by (simp add: DetectShakePattern_iff full_shake_window kHistorySize_def kMaxTimeWindow_def
      kMinDirectionChanges_def kMinMovementSpeed_def)

lemma shake_flag_positive: "snd (ShouldEnlargeCursor id shake_state origin (ms 400))"
proof -
  have "0 < duration_cast_ms (ms 400 - last_time shake_state)"
    by (simp add: shake_state_eval duration_cast_ms_def ms_def)
  then have "snd (ShouldEnlargeCursor id shake_state origin (ms 400))
               = DetectShakePattern id
                   (movement_history (fst (ShouldEnlargeCursor id shake_state origin (ms 400))))"
    by (simp add: ShouldEnlargeCursor_accepted Let_def)
  also have "\<dots>"
    using full_shake_detected by (simp add: full_shake_state_def)
  finally show ?thesis .
qed










section \<open>Whole milliseconds\<close>

lemma duration_cast_ms_le_500: "duration_cast_ms d \<le> 500 \<longleftrightarrow> d < ms 501"
  unfolding duration_cast_ms_def ms_def by (cases "0 \<le> d") auto

section \<open>The factor in use\<close>

text \<open>With \<open>kScaleFactor = 3\<close> the product of a hotspot coordinate and the factor is a
  whole number, which is its own truncation and its own nearest integer.\<close>

lemma hotspot_at_kScaleFactor:
  "static_cast_DWORD (real n * kScaleFactor) = 3 * n
   \<and> spec_round (real n * kScaleFactor) = int (3 * n)"
proof -
  have a: "real n * 3 = real_of_int (int (3 * n))" by simp
  have "\<lfloor>real n * 3\<rfloor> = int (3 * n)"
    unfolding a by (rule floor_of_int)
  moreover have "\<lfloor>real n * 3 + 1 / 2\<rfloor> = int (3 * n)"
    unfolding a by linarith
  ultimately show ?thesis
    by (simp only: static_cast_DWORD_def spec_round_def kScaleFactor_def nat_int simp_thms)
qed

section \<open>Ticks whose restore fails\<close>

lemma RestoreIfNeeded_failed:
  assumes "is_enlarged s" and "past_dwell s now" and "restore_fails s host"
  shows "fst (RestoreIfNeeded host s now) = s"
    and "snd (RestoreIfNeeded host s now) \<noteq> []"
    and "hd (snd (RestoreIfNeeded host s now)) = Call_CopyCursor (original_cursor s)"
  using assms
  by (auto simp: RestoreIfNeeded_def RestoreOriginalCursor_def Let_def past_dwell_def
      restore_fails_def)

lemma RestoreIfNeeded_all_Cons:
  "fst (RestoreIfNeeded_all s ((host, now) # ticks))
     = fst (RestoreIfNeeded_all (fst (RestoreIfNeeded host s now)) ticks)"
  "snd (RestoreIfNeeded_all s ((host, now) # ticks))
     = snd (RestoreIfNeeded host s now)
       # snd (RestoreIfNeeded_all (fst (RestoreIfNeeded host s now)) ticks)"
  by (simp_all add: case_prod_beta)

lemma RestoreIfNeeded_all_failed:
  assumes "is_enlarged s"
      and "\<forall>(host, now) \<in> set ticks. past_dwell s now \<and> restore_fails s host"
  shows "fst (RestoreIfNeeded_all s ticks) = s
       \<and> length (snd (RestoreIfNeeded_all s ticks)) = length ticks
       \<and> (\<forall>calls \<in> set (snd (RestoreIfNeeded_all s ticks)).
            calls \<noteq> [] \<and> hd calls = Call_CopyCursor (original_cursor s))"
  using assms(2)
proof (induction ticks)
  case Nil
  show ?case by simp
next
  case (Cons tick ticks)
  obtain host now where tick: "tick = (host, now)" by (cases tick)
  from Cons.prems have here: "past_dwell s now" "restore_fails s host"
    and rest: "\<forall>(host, now) \<in> set ticks. past_dwell s now \<and> restore_fails s host"
    by (simp_all add: tick)
  note one = RestoreIfNeeded_failed [OF assms(1) here]
  from Cons.IH [OF rest] one show ?case
    by (simp add: tick RestoreIfNeeded_all_Cons del: RestoreIfNeeded_all.simps)
qed

section \<open>The shake detector\<close>




text \<open>
  C2, as claimed: a sample that does not move along an axis does not reset the remembered
  direction of that axis, so a reversal across such a sample is still counted. The loop
  does otherwise: it stores the direction of every sample, zero included, in
  \<^verbatim>\<open>last_x_dir\<close> and \<^verbatim>\<open>last_y_dir\<close>. In the window below the pointer reverses five
  times along x, four of them across a sample with \<open>dx = 0\<close>; the loop counts one
  change, and \<^verbatim>\<open>DetectShakePattern\<close> returns false although the window lasts 400 ms at
  an average of 1500 pixels per second.
\<close>

theorem zero_gap_counterexample:
  "direction_changes (shake_loop id shake_vars_init zero_gap_window) = 1
   \<and> spec_direction_changes zero_gap_window = 5
   \<and> length zero_gap_window = kHistorySize
   \<and> window_total_time zero_gap_window = 400
   \<and> window_avg_speed id zero_gap_window = 1500
   \<and> \<not> DetectShakePattern id zero_gap_window"
proof -
  have dc: "direction_changes (shake_loop id shake_vars_init zero_gap_window) = 1"
    by (simp add: zero_gap_window_def shake_step_def shake_vars_init_def Let_def curr_dir_def)
  have sp: "spec_direction_changes zero_gap_window = 5"
    by (simp add: zero_gap_window_def spec_direction_changes_def curr_dir_def)
  have len: "length zero_gap_window = kHistorySize"
    by (simp add: zero_gap_window_def kHistorySize_def)
  have tt: "window_total_time zero_gap_window = 400"
    by (simp add: zero_gap_window_def window_total_time_def)
  have av: "window_avg_speed id zero_gap_window = 1500"
    by (simp add: zero_gap_window_def window_avg_speed_def sample_speed_on_x_axis)
  have "\<not> DetectShakePattern id zero_gap_window"
    using dc by (simp add: DetectShakePattern_def Let_def kMinDirectionChanges_def)
  with dc sp len tt av show ?thesis by simp
qed

text \<open>
  C2, amended: for each axis independently, the loop counts a change exactly at the
  positions of the window where two neighbouring samples both move along that axis, in
  different directions. A sample that does not move along an axis is never counted as a
  change, and it overwrites the remembered direction of that axis with zero: after every
  iteration the remembered directions are those of the sample just read.
\<close>

theorem direction_changes_adjacent:
  "direction_changes (shake_loop rnd shake_vars_init w) =
     int (card {i. Suc i < length w \<and> opposite (dx (w ! i)) (dx (w ! Suc i))})
     + int (card {i. Suc i < length w \<and> opposite (dy (w ! i)) (dy (w ! Suc i))})
   \<and> last_x_dir (shake_step rnd v m) = curr_dir (dx m)
   \<and> last_y_dir (shake_step rnd v m) = curr_dir (dy m)"
proof -
  have "{i. Suc i < length (map f w) \<and> map f w ! i \<noteq> 0 \<and> map f w ! Suc i \<noteq> 0
            \<and> map f w ! i \<noteq> map f w ! Suc i}
        = {i. Suc i < length w \<and> f (w ! i) \<noteq> 0 \<and> f (w ! Suc i) \<noteq> 0 \<and> f (w ! i) \<noteq> f (w ! Suc i)}"
    for f :: "Movement \<Rightarrow> int"
    by auto
  then show ?thesis
    by (simp add: shake_loop_init_direction_changes window_direction_changes_def
        dir_changes_card opposite_def shake_step_last_dirs)
qed

text \<open>
  C6. After any sequence of calls on a newly constructed detector, the history is the
  sequence of the stored samples without all but its last \<open>kHistorySize = 10\<close> elements:
  the samples stand in the order in which they were stored and the oldest are the ones
  dropped. Its length is the minimum of 10 and the number of stored samples, and never
  exceeds 10.
\<close>

theorem movement_history_keeps_last_samples:
  "movement_history (fst (observe_all rnd (MouseMoveDetector_new p0 t0) calls))
     = drop (length (accepted_samples (MouseMoveDetector_new p0 t0) calls) - kHistorySize)
            (accepted_samples (MouseMoveDetector_new p0 t0) calls)
   \<and> length (movement_history (fst (observe_all rnd (MouseMoveDetector_new p0 t0) calls)))
     = min kHistorySize (length (accepted_samples (MouseMoveDetector_new p0 t0) calls))
   \<and> length (movement_history (fst (observe_all rnd (MouseMoveDetector_new p0 t0) calls)))
     \<le> kHistorySize"
proof -
  have "movement_history (fst (observe_all rnd (MouseMoveDetector_new p0 t0) calls))
     = drop (length (accepted_samples (MouseMoveDetector_new p0 t0) calls) - kHistorySize)
            (accepted_samples (MouseMoveDetector_new p0 t0) calls)"
    by (subst observe_all_history) (simp_all add: MouseMoveDetector_new_def)
  moreover have "length (movement_history (fst (observe_all rnd (MouseMoveDetector_new p0 t0) calls)))
     = min kHistorySize (length (accepted_samples (MouseMoveDetector_new p0 t0) calls))"
    by (rule observe_all_length_history)
  ultimately show ?thesis
    by (simp only: min.cobounded1 simp_thms)
qed

theorem movement_history_keeps_last_samples_witness:
  "length (accepted_samples (MouseMoveDetector_new origin 0) eleven_calls) = 11
   \<and> movement_history (fst (observe_all id (MouseMoveDetector_new origin 0) eleven_calls))
       = tl (accepted_samples (MouseMoveDetector_new origin 0) eleven_calls)
   \<and> length (movement_history (fst (observe_all id (MouseMoveDetector_new origin 0) eleven_calls)))
       = 10"
  using movement_history_keeps_last_samples [of id origin 0 eleven_calls]
  by (simp add: eleven_calls_accepted kHistorySize_def)

text \<open>
  C7. A call whose elapsed time, in whole milliseconds, is zero or negative returns false
  and leaves the detector as it was: the history, the last position and the last time are
  those before the call.
\<close>

theorem rejected_call_changes_nothing:
  "duration_cast_ms (now - last_time s) \<le> 0 \<Longrightarrow>
     ShouldEnlargeCursor rnd s current_pos now = (s, False)"
  unfolding ShouldEnlargeCursor_def Let_def by simp

theorem rejected_call_changes_nothing_witness:
  "duration_cast_ms (ms 360 + 400000 - last_time shake_state) \<le> 0
   \<and> ShouldEnlargeCursor id shake_state origin (ms 360 + 400000) = (shake_state, False)
   \<and> movement_history shake_state \<noteq> []"
proof -
  have dt0: "duration_cast_ms (ms 360 + 400000 - last_time shake_state) \<le> 0"
    by (simp add: shake_state_eval duration_cast_ms_def ms_def)
  from rejected_call_changes_nothing [OF dt0]
  have "ShouldEnlargeCursor id shake_state origin (ms 360 + 400000) = (shake_state, False)" .
  with dt0 show ?thesis by (simp add: shake_state_eval)
qed

text \<open>
  C10. Every sample in the history of a detector, after any sequence of calls on a newly
  constructed one, has a positive \<open>dt\<close>, so the speed the loop computes for it is the
  quotient \<^verbatim>\<open>(distance / mov.dt) * 1000.0\<close> and never the fallback \<open>0\<close>.
\<close>

theorem stored_samples_have_positive_dt:
  "\<forall>m \<in> set (movement_history (fst (observe_all rnd (MouseMoveDetector_new p0 t0) calls))).
     0 < dt m
     \<and> speed rnd m
         = map_option (\<lambda>d. rnd (rnd (d / rnd (real_of_int (dt m))) * 1000)) (distance rnd m)"
proof
  fix m
  assume "m \<in> set (movement_history (fst (observe_all rnd (MouseMoveDetector_new p0 t0) calls)))"
  then have "m \<in> set (drop (length (accepted_samples (MouseMoveDetector_new p0 t0) calls) - kHistorySize)
                             (accepted_samples (MouseMoveDetector_new p0 t0) calls))"
    by (subst (asm) observe_all_history) (simp_all add: MouseMoveDetector_new_def)
  then have "m \<in> set (accepted_samples (MouseMoveDetector_new p0 t0) calls)"
    by (rule in_set_dropD)
  then have "0 < dt m"
    by (rule accepted_samples_dt_pos)
  then show "0 < dt m
     \<and> speed rnd m
         = map_option (\<lambda>d. rnd (rnd (d / rnd (real_of_int (dt m))) * 1000)) (distance rnd m)"
    by (simp add: speed_def)
qed

theorem stored_samples_have_positive_dt_witness:
  "\<lparr>dx = 50, dy = 0, dt = 40\<rparr> \<in> set (movement_history shake_state)
   \<and> 0 < dt \<lparr>dx = 50, dy = 0, dt = 40\<rparr>
   \<and> speed id \<lparr>dx = 50, dy = 0, dt = 40\<rparr> = Some 1250"
proof -
  have mem: "\<lparr>dx = 50, dy = 0, dt = 40\<rparr> \<in> set (movement_history shake_state)"
    by (simp add: shake_state_eval)
  from stored_samples_have_positive_dt [of id origin 0 shake_calls] mem
  have "0 < dt \<lparr>dx = 50, dy = 0, dt = 40\<rparr>
        \<and> speed id \<lparr>dx = 50, dy = 0, dt = 40\<rparr>
            = map_option (\<lambda>d. id (id (d / id (real_of_int (dt \<lparr>dx = 50, dy = 0, dt = 40\<rparr>))) * 1000))
                (distance id \<lparr>dx = 50, dy = 0, dt = 40\<rparr>)"
    unfolding shake_state_def [symmetric] by blast
  with mem show ?thesis
    by (simp add: distance_on_x_axis)
qed

section \<open>The cursor state\<close>

text \<open>
  C3, as claimed: once enlarged, any tick with \<open>now - since > 500 ms\<close> returns the state
  to normal and issues one restore command. \<^verbatim>\<open>RestoreIfNeeded\<close> compares the elapsed time
  in whole milliseconds, truncated, with 500: half a millisecond after the 500th the
  elapsed time is still 500 and nothing happens. And when the host declines
  \<^verbatim>\<open>SetSystemCursor\<close>, the state stays enlarged.
\<close>

theorem restore_boundary_counterexample:
  "is_enlarged enlarged_state
   \<and> ms 500 < (ms 1500 + 500000) - enlarge_start_time enlarged_state
   \<and> RestoreIfNeeded accepting_host enlarged_state (ms 1500 + 500000) = (enlarged_state, [])
   \<and> ms 500 < ms 1600 - enlarge_start_time enlarged_state
   \<and> RestoreIfNeeded declining_host enlarged_state (ms 1600)
       = (enlarged_state,
          [Call_CopyCursor 1, Call_SetSystemCursor 11, Call_DestroyCursor 11])"
  by (simp add: enlarged_state_def accepting_host_def declining_host_def RestoreIfNeeded_def
      RestoreOriginalCursor_def Let_def duration_cast_ms_def ms_def kEnlargeDurationMs_def)

text \<open>
  C3, amended: in an enlarged state, a tick less than 501 ms after the enlargement (at
  \<open>T + 400 ms\<close>, and at any time up to \<open>T + 500 ms\<close>) leaves the state as it is and
  makes no host call. A tick 501 ms after it or later (at \<open>T + 600 ms\<close>), for which the
  host copies the original cursor and accepts \<^verbatim>\<open>SetSystemCursor\<close>, clears
  \<^verbatim>\<open>is_enlarged_\<close> and issues exactly one restore command.
\<close>

theorem restore_after_dwell:
  assumes "is_enlarged s"
  shows "(now - enlarge_start_time s < ms 501 \<longrightarrow> RestoreIfNeeded host s now = (s, []))
       \<and> (ms 501 \<le> now - enlarge_start_time s
            \<and> CopyCursor host (original_cursor s) \<noteq> 0
            \<and> SetSystemCursor host (CopyCursor host (original_cursor s)) \<longrightarrow>
              RestoreIfNeeded host s now
                = (s\<lparr>is_enlarged := False\<rparr>,
                   [Call_CopyCursor (original_cursor s),
                    Call_SetSystemCursor (CopyCursor host (original_cursor s))])
              \<and> length (set_commands (snd (RestoreIfNeeded host s now))) = 1)"
proof -
  have early: "RestoreIfNeeded host s now = (s, [])"
    if "now - enlarge_start_time s < ms 501"
  proof -
    from that have "duration_cast_ms (now - enlarge_start_time s) \<le> 500"
      by (simp add: duration_cast_ms_le_500)
    with assms show ?thesis
      by (simp add: RestoreIfNeeded_def kEnlargeDurationMs_def)
  qed
  have late: "RestoreIfNeeded host s now
                = (s\<lparr>is_enlarged := False\<rparr>,
                   [Call_CopyCursor (original_cursor s),
                    Call_SetSystemCursor (CopyCursor host (original_cursor s))])
              \<and> length (set_commands (snd (RestoreIfNeeded host s now))) = 1"
    if h: "ms 501 \<le> now - enlarge_start_time s
            \<and> CopyCursor host (original_cursor s) \<noteq> 0
            \<and> SetSystemCursor host (CopyCursor host (original_cursor s))"
  proof -
    from h have "\<not> duration_cast_ms (now - enlarge_start_time s) \<le> 500"
      by (simp add: duration_cast_ms_le_500)
    with assms h have "RestoreIfNeeded host s now
                = (s\<lparr>is_enlarged := False\<rparr>,
                   [Call_CopyCursor (original_cursor s),
                    Call_SetSystemCursor (CopyCursor host (original_cursor s))])"
      by (simp add: RestoreIfNeeded_def RestoreOriginalCursor_def kEnlargeDurationMs_def)
    then show ?thesis
      by (simp add: set_commands_def)
  qed
  from early late show ?thesis by blast
qed

theorem restore_after_dwell_witness:
  "is_enlarged enlarged_state
   \<and> RestoreIfNeeded accepting_host enlarged_state (enlarge_start_time enlarged_state + ms 400)
       = (enlarged_state, [])
   \<and> RestoreIfNeeded accepting_host enlarged_state (enlarge_start_time enlarged_state + ms 600)
       = (enlarged_state\<lparr>is_enlarged := False\<rparr>, [Call_CopyCursor 1, Call_SetSystemCursor 11])
   \<and> length (set_commands (snd (RestoreIfNeeded accepting_host enlarged_state
                                    (enlarge_start_time enlarged_state + ms 600)))) = 1"
proof -
  have e: "is_enlarged enlarged_state"
    by (simp add: enlarged_state_def)
  have early: "enlarge_start_time enlarged_state + ms 400 - enlarge_start_time enlarged_state < ms 501"
    by (simp add: ms_def)
  have late: "ms 501 \<le> enlarge_start_time enlarged_state + ms 600 - enlarge_start_time enlarged_state
              \<and> CopyCursor accepting_host (original_cursor enlarged_state) \<noteq> 0
              \<and> SetSystemCursor accepting_host (CopyCursor accepting_host (original_cursor enlarged_state))"
    by (simp add: ms_def accepting_host_def)
  from restore_after_dwell [OF e, of "enlarge_start_time enlarged_state + ms 400" accepting_host] early
  have a: "RestoreIfNeeded accepting_host enlarged_state (enlarge_start_time enlarged_state + ms 400)
       = (enlarged_state, [])"
    by blast
  from restore_after_dwell [OF e, of "enlarge_start_time enlarged_state + ms 600" accepting_host] late
  have b: "RestoreIfNeeded accepting_host enlarged_state (enlarge_start_time enlarged_state + ms 600)
       = (enlarged_state\<lparr>is_enlarged := False\<rparr>,
          [Call_CopyCursor (original_cursor enlarged_state),
           Call_SetSystemCursor (CopyCursor accepting_host (original_cursor enlarged_state))])
     \<and> length (set_commands (snd (RestoreIfNeeded accepting_host enlarged_state
                                    (enlarge_start_time enlarged_state + ms 600)))) = 1"
    by blast
  from e a b show ?thesis
    by (simp add: enlarged_state_def accepting_host_def set_commands_def)
qed

text \<open>
  C4. In an enlarged state \<^verbatim>\<open>Enlarge\<close> changes nothing, whatever the clock reads and
  whatever the host would answer: the state, with its start time, is the one before the
  call, and no host call is made. So \<^verbatim>\<open>ProcessMouseMove\<close> leaves the cursor state alone
  and makes no host call, whether the detector reports a shake or not.
\<close>

theorem enlarge_while_enlarged_is_noop:
  assumes "is_enlarged s"
  shows "Enlarge host s now = (s, [])
       \<and> snd (ProcessMouseMove rnd host (d, s) pt t now) = []
       \<and> snd (fst (ProcessMouseMove rnd host (d, s) pt t now)) = s"
  using assms by (simp add: Enlarge_def ProcessMouseMove_def case_prod_beta)

theorem enlarge_while_enlarged_is_noop_witness:
  "is_enlarged enlarged_state
   \<and> Enlarge accepting_host enlarged_state (ms 1200) = (enlarged_state, [])
   \<and> enlarge_start_time (fst (Enlarge accepting_host enlarged_state (ms 1200))) = ms 1000
   \<and> snd (ShouldEnlargeCursor id shake_state origin (ms 400))
   \<and> ProcessMouseMove id accepting_host (shake_state, enlarged_state) origin (ms 400) (ms 1200)
       = ((fst (ShouldEnlargeCursor id shake_state origin (ms 400)), enlarged_state), [])"
proof -
  have e: "is_enlarged enlarged_state"
    by (simp add: enlarged_state_def)
  note noop = enlarge_while_enlarged_is_noop
    [OF e, of accepting_host "ms 1200" id shake_state origin "ms 400"]
  have shake: "snd (ShouldEnlargeCursor id shake_state origin (ms 400))"
    using shake_flag_positive .
  have "fst (fst (ProcessMouseMove id accepting_host (shake_state, enlarged_state) origin (ms 400) (ms 1200)))
          = fst (ShouldEnlargeCursor id shake_state origin (ms 400))"
    by (simp add: ProcessMouseMove_def case_prod_beta)
  with noop have "ProcessMouseMove id accepting_host (shake_state, enlarged_state) origin (ms 400) (ms 1200)
       = ((fst (ShouldEnlargeCursor id shake_state origin (ms 400)), enlarged_state), [])"
    by (metis prod.collapse)
  with noop e shake show ?thesis
    by (simp add: enlarged_state_def)
qed

text \<open>
  C8. When the dwell time has passed and the restore fails (the host has no copy of the
  original cursor to give, or declines \<^verbatim>\<open>SetSystemCursor\<close>), the state is unchanged: still
  enlarged, with the same start time. So after any number of such ticks, each of which
  has asked the host for a copy of the original cursor, the next tick past the dwell time
  runs \<^verbatim>\<open>RestoreOriginalCursor\<close> once more: it asks for the copy again, and when the host
  gives it and accepts \<^verbatim>\<open>SetSystemCursor\<close>, the state returns to normal.
\<close>

theorem failed_restore_is_retried:
  assumes "is_enlarged s"
      and "\<forall>(host, now) \<in> set ticks. past_dwell s now \<and> restore_fails s host"
      and "past_dwell s now'"
  shows "fst (RestoreIfNeeded_all s ticks) = s
       \<and> length (snd (RestoreIfNeeded_all s ticks)) = length ticks
       \<and> (\<forall>calls \<in> set (snd (RestoreIfNeeded_all s ticks)).
            calls \<noteq> [] \<and> hd calls = Call_CopyCursor (original_cursor s))
       \<and> RestoreIfNeeded host' (fst (RestoreIfNeeded_all s ticks)) now'
           = RestoreOriginalCursor host' s
       \<and> snd (RestoreOriginalCursor host' s) \<noteq> []
       \<and> hd (snd (RestoreOriginalCursor host' s)) = Call_CopyCursor (original_cursor s)
       \<and> (\<not> restore_fails s host' \<longrightarrow>
            RestoreOriginalCursor host' s
              = (s\<lparr>is_enlarged := False\<rparr>,
                 [Call_CopyCursor (original_cursor s),
                  Call_SetSystemCursor (CopyCursor host' (original_cursor s))]))"
proof -
  note failed = RestoreIfNeeded_all_failed [OF assms(1,2)]
  then have same: "fst (RestoreIfNeeded_all s ticks) = s"
    by (rule conjunct1)
  have again: "RestoreIfNeeded host' s now' = RestoreOriginalCursor host' s"
    using assms(1,3) by (simp add: RestoreIfNeeded_def past_dwell_def)
  have calls: "snd (RestoreOriginalCursor host' s) \<noteq> []
       \<and> hd (snd (RestoreOriginalCursor host' s)) = Call_CopyCursor (original_cursor s)"
    using assms(1) by (simp add: RestoreOriginalCursor_def Let_def)
  have restored: "RestoreOriginalCursor host' s
              = (s\<lparr>is_enlarged := False\<rparr>,
                 [Call_CopyCursor (original_cursor s),
                  Call_SetSystemCursor (CopyCursor host' (original_cursor s))])"
    if "\<not> restore_fails s host'"
    using assms(1) that by (simp add: RestoreOriginalCursor_def Let_def restore_fails_def)
  from failed again calls restored show ?thesis
    by (simp add: same)
qed

theorem failed_restore_is_retried_witness:
  "is_enlarged enlarged_state
   \<and> past_dwell enlarged_state (ms 1600) \<and> restore_fails enlarged_state declining_host
   \<and> past_dwell enlarged_state (ms 1700)
   \<and> past_dwell enlarged_state (ms 1800) \<and> \<not> restore_fails enlarged_state accepting_host
   \<and> RestoreIfNeeded_all enlarged_state [(declining_host, ms 1600), (declining_host, ms 1700)]
       = (enlarged_state,
          [[Call_CopyCursor 1, Call_SetSystemCursor 11, Call_DestroyCursor 11],
           [Call_CopyCursor 1, Call_SetSystemCursor 11, Call_DestroyCursor 11]])
   \<and> RestoreIfNeeded accepting_host
        (fst (RestoreIfNeeded_all enlarged_state
                [(declining_host, ms 1600), (declining_host, ms 1700)])) (ms 1800)
       = (enlarged_state\<lparr>is_enlarged := False\<rparr>, [Call_CopyCursor 1, Call_SetSystemCursor 11])"
proof -
  let ?ticks = "[(declining_host, ms 1600), (declining_host, ms 1700)]"
  have e: "is_enlarged enlarged_state"
    by (simp add: enlarged_state_def)
  have t: "past_dwell enlarged_state (ms 1600)" "past_dwell enlarged_state (ms 1700)"
    "past_dwell enlarged_state (ms 1800)"
    by (simp_all add: past_dwell_def enlarged_state_def kEnlargeDurationMs_def
        duration_cast_ms_def ms_def)
  have d: "restore_fails enlarged_state declining_host"
    by (simp add: restore_fails_def declining_host_def)
  have a: "\<not> restore_fails enlarged_state accepting_host"
    by (simp add: restore_fails_def accepting_host_def)
  have all: "\<forall>(host, now) \<in> set ?ticks. past_dwell enlarged_state now \<and> restore_fails enlarged_state host"
    using t d by simp
  note retry = failed_restore_is_retried [OF e all t(3), of accepting_host]
  from retry have "RestoreIfNeeded accepting_host (fst (RestoreIfNeeded_all enlarged_state ?ticks)) (ms 1800)
       = RestoreOriginalCursor accepting_host enlarged_state"
    by blast
  also from retry a have "\<dots>
       = (enlarged_state\<lparr>is_enlarged := False\<rparr>,
          [Call_CopyCursor (original_cursor enlarged_state),
           Call_SetSystemCursor (CopyCursor accepting_host (original_cursor enlarged_state))])"
    by blast
  finally have "RestoreIfNeeded accepting_host (fst (RestoreIfNeeded_all enlarged_state ?ticks)) (ms 1800)
       = (enlarged_state\<lparr>is_enlarged := False\<rparr>,
          [Call_CopyCursor (original_cursor enlarged_state),
           Call_SetSystemCursor (CopyCursor accepting_host (original_cursor enlarged_state))])" .
  then have last: "RestoreIfNeeded accepting_host (fst (RestoreIfNeeded_all enlarged_state ?ticks)) (ms 1800)
       = (enlarged_state\<lparr>is_enlarged := False\<rparr>, [Call_CopyCursor 1, Call_SetSystemCursor 11])"
    by (simp only: enlarged_state_def accepting_host_def CursorState.simps cursor_host.simps)
      simp
  have run: "RestoreIfNeeded_all enlarged_state ?ticks
       = (enlarged_state,
          [[Call_CopyCursor 1, Call_SetSystemCursor 11, Call_DestroyCursor 11],
           [Call_CopyCursor 1, Call_SetSystemCursor 11, Call_DestroyCursor 11]])"
    by (simp add: RestoreIfNeeded_def RestoreOriginalCursor_def Let_def enlarged_state_def
        declining_host_def kEnlargeDurationMs_def duration_cast_ms_def ms_def)
  from e t d a run last show ?thesis
    by (intro conjI)
qed

section \<open>The cursor scaler\<close>

text \<open>
  C5, as claimed: the hotspot of the scaled cursor is the old hotspot times the factor,
  rounded to the nearest integer. \<^verbatim>\<open>ScaleCursor\<close> converts the product with
  \<^verbatim>\<open>static_cast<DWORD>\<close>, which drops the fraction: a hotspot at \<open>(1, 1)\<close> scaled by
  \<open>1.75\<close> stays at \<open>(1, 1)\<close>, and the nearest integer to \<open>1.75\<close> is \<open>2\<close>.
\<close>

theorem hotspot_round_counterexample:
  "ScaleCursor id arrow_host 1 (7 / 4)
     = Some \<lparr>fIcon = False, new_xHotspot = 1, new_yHotspot = 1, new_width = 56, new_height = 56\<rparr>
   \<and> GetIconInfo arrow_host 1 = Some \<lparr>xHotspot = 1, yHotspot = 1, hbmMask = 2, hbmColor = 3\<rparr>
   \<and> spec_round (real (1 :: nat) * (7 / 4)) = 2"
  by (simp add: ScaleCursor_def arrow_host_def static_cast_int_def static_cast_DWORD_def
      spec_round_def Let_def)

text \<open>
  C5, amended: whenever \<^verbatim>\<open>ScaleCursor\<close> produces a cursor, its factor is positive and
  its hotspot is, on each axis, the old hotspot times the factor (a \<^verbatim>\<open>double\<close> product)
  with the fraction dropped.
\<close>

theorem scaled_hotspot_is_truncated:
  assumes "ScaleCursor rnd host src_cursor scale_factor = Some img"
      and "GetIconInfo host src_cursor = Some icon_info"
  shows "new_xHotspot img = nat \<lfloor>rnd (real (xHotspot icon_info) * scale_factor)\<rfloor>
       \<and> new_yHotspot img = nat \<lfloor>rnd (real (yHotspot icon_info) * scale_factor)\<rfloor>
       \<and> 0 < scale_factor"
  using assms
  by (auto simp: ScaleCursor_def static_cast_DWORD_def Let_def
      split: if_splits option.splits)

theorem scaled_hotspot_is_truncated_witness:
  "ScaleCursor id arrow_host 1 (7 / 4)
     = Some \<lparr>fIcon = False, new_xHotspot = 1, new_yHotspot = 1, new_width = 56, new_height = 56\<rparr>
   \<and> GetIconInfo arrow_host 1 = Some \<lparr>xHotspot = 1, yHotspot = 1, hbmMask = 2, hbmColor = 3\<rparr>
   \<and> new_xHotspot \<lparr>fIcon = False, new_xHotspot = 1, new_yHotspot = 1, new_width = 56, new_height = 56\<rparr>
       = nat \<lfloor>id (real (1 :: nat) * (7 / 4))\<rfloor>"
proof -
  have a: "ScaleCursor id arrow_host 1 (7 / 4)
     = Some \<lparr>fIcon = False, new_xHotspot = 1, new_yHotspot = 1, new_width = 56, new_height = 56\<rparr>"
    by (simp add: ScaleCursor_def arrow_host_def static_cast_int_def static_cast_DWORD_def Let_def)
  have b: "GetIconInfo arrow_host 1 = Some \<lparr>xHotspot = 1, yHotspot = 1, hbmMask = 2, hbmColor = 3\<rparr>"
    by (simp add: arrow_host_def)
  from scaled_hotspot_is_truncated [OF a b] a b show ?thesis
    by simp
qed

text \<open>
  C9. With a null source cursor, or a factor that is zero or negative, \<^verbatim>\<open>ScaleCursor\<close>
  returns \<^verbatim>\<open>nullptr\<close>, whatever the host would answer: no cursor is produced.
\<close>

theorem nonpositive_factor_or_null_cursor_fails:
  "src_cursor = 0 \<or> scale_factor \<le> 0 \<Longrightarrow> ScaleCursor rnd host src_cursor scale_factor = None"
  unfolding ScaleCursor_def by simp

theorem nonpositive_factor_or_null_cursor_fails_witness:
  "((1 :: nat) = 0 \<or> (- 3 :: real) \<le> 0)
   \<and> ScaleCursor id arrow_host 1 (- 3) = None
   \<and> ScaleCursor id arrow_host 1 0 = None
   \<and> ScaleCursor id arrow_host 0 3 = None
   \<and> ScaleCursor id arrow_host 1 3 \<noteq> None"
proof -
  have "ScaleCursor id arrow_host 1 (- 3) = None"
    by (rule nonpositive_factor_or_null_cursor_fails) simp
  moreover have "ScaleCursor id arrow_host 1 0 = None"
    by (rule nonpositive_factor_or_null_cursor_fails) simp
  moreover have "ScaleCursor id arrow_host 0 3 = None"
    by (rule nonpositive_factor_or_null_cursor_fails) simp
  moreover have "ScaleCursor id arrow_host 1 3 \<noteq> None"
    by (simp add: ScaleCursor_def arrow_host_def Let_def)
  ultimately show ?thesis by simp
qed

end
